theory Spec2Isabelle
  imports Main "HOL-Library.Product_Lexorder"
begin

section \<open>Python values used by the dashboard script\<close>

text \<open>
  The script \<^verbatim>\<open>src/app.py\<close> is one top-to-bottom pass that the UI framework re-runs on
  every interaction. The model below follows it line by line: the values it handles first,
  then its helper functions, then the pass itself as a function from the inputs of one run
  (API responses, widget values, the current date) to the list of calls it makes (API
  requests and display calls) and the way the pass ends.
\<close>

datatype py_error =
    KeyError string
  | IndexError
  | ValueError
  | RequestException string

text \<open>
  A \<^verbatim>\<open>datetime.date\<close> is its fields (year, month, day); Python compares dates field by
  field, which is the lexicographic order on the triple. A pandas \<^verbatim>\<open>Timestamp\<close> is a date
  and the nanoseconds elapsed within that day, ordered the same way.
\<close>

type_synonym date = "int \<times> int \<times> int"
type_synonym timestamp = "date \<times> nat"

text \<open>The proleptic Gregorian ordinal, as \<^verbatim>\<open>datetime.date.toordinal\<close> computes it.\<close>

definition is_leap :: "int \<Rightarrow> bool" where
  "is_leap y = (y mod 4 = 0 \<and> (y mod 100 \<noteq> 0 \<or> y mod 400 = 0))"

definition days_before_year :: "int \<Rightarrow> int" where
  "days_before_year year =
     (let y = year - 1 in y * 365 + y div 4 - y div 100 + y div 400)"

definition DAYS_BEFORE_MONTH :: "int list" where
  "DAYS_BEFORE_MONTH = [-1, 0, 31, 59, 90, 120, 151, 181, 212, 243, 273, 304, 334]"

definition days_before_month :: "int \<Rightarrow> int \<Rightarrow> int" where
  "days_before_month year month =
     DAYS_BEFORE_MONTH ! nat month + (if month > 2 \<and> is_leap year then 1 else 0)"

fun toordinal :: "date \<Rightarrow> int" where
  "toordinal (y, m, d) = days_before_year y + days_before_month y m + d"

text \<open>\<^verbatim>\<open>(a - b).days\<close> for two dates.\<close>

definition days_between :: "date \<Rightarrow> date \<Rightarrow> int" where
  "days_between a b = toordinal a - toordinal b"

text \<open>Decimal rendering of integers, as \<^verbatim>\<open>str\<close> and f-strings do.\<close>

fun str_nat :: "nat \<Rightarrow> string" where
  "str_nat n =
     (if n < 10 then [''0123456789'' ! n]
      else str_nat (n div 10) @ [''0123456789'' ! (n mod 10)])"

definition str_int :: "int \<Rightarrow> string" where
  "str_int i = (if i < 0 then ''-'' @ str_nat (nat (- i)) else str_nat (nat i))"

definition zfill :: "nat \<Rightarrow> string \<Rightarrow> string" where
  "zfill w s = replicate (w - length s) (CHR ''0'') @ s"

text \<open>
  \<^verbatim>\<open>str(d)\<close> of a date is its ISO-8601 form \<^verbatim>\<open>YYYY-MM-DD\<close>; for the four-digit years
  of a \<^verbatim>\<open>datetime.date\<close> that is also \<^verbatim>\<open>d.strftime("%Y-%m-%d")\<close>.
\<close>

fun isoformat :: "date \<Rightarrow> string" where
  "isoformat (y, m, d) =
     zfill 4 (str_int y) @ ''-'' @ zfill 2 (str_int m) @ ''-'' @ zfill 2 (str_int d)"

section \<open>Tables\<close>

text \<open>
  The scalars of a decoded JSON row, and the cells of a pandas table. \<open>NaN\<close> stands for
  every missing value (\<^verbatim>\<open>None\<close>, \<^verbatim>\<open>NaN\<close>, \<^verbatim>\<open>NaT\<close>): \<^verbatim>\<open>isna\<close> is true of exactly these.
  Numbers are integers; the API's counts are.
\<close>

datatype scalar = JNull | JNum int | JStr string

datatype cell = NaN | Num int | Str string | Ts timestamp

fun cell_of :: "scalar \<Rightarrow> cell" where
  "cell_of JNull = NaN"
| "cell_of (JNum n) = Num n"
| "cell_of (JStr s) = Str s"

text \<open>
  What pandas itself decides is a parameter of the model: which strings it reads as a
  timestamp or as a number, which timestamp a bare number denotes, and the CSV text of a
  table. Every theorem below holds for all values of these parameters.
\<close>

record pandas =
  parse_datetime :: "string \<Rightarrow> timestamp option"
  parse_numeric :: "string \<Rightarrow> int option"
  epoch_datetime :: "int \<Rightarrow> timestamp option"
  to_csv :: "string list \<Rightarrow> (string \<times> cell) list list \<Rightarrow> string"

text \<open>\<^verbatim>\<open>pd.to_datetime(..., errors="coerce")\<close> on one value: what cannot be read is missing.\<close>

fun to_datetime :: "pandas \<Rightarrow> cell \<Rightarrow> cell" where
  "to_datetime P NaN = NaN"
| "to_datetime P (Num n) = (case epoch_datetime P n of None \<Rightarrow> NaN | Some t \<Rightarrow> Ts t)"
| "to_datetime P (Str s) = (case parse_datetime P s of None \<Rightarrow> NaN | Some t \<Rightarrow> Ts t)"
| "to_datetime P (Ts t) = Ts t"

text \<open>\<^verbatim>\<open>pd.to_numeric(..., errors="coerce")\<close> on one value.\<close>

fun to_numeric :: "pandas \<Rightarrow> cell \<Rightarrow> cell" where
  "to_numeric P NaN = NaN"
| "to_numeric P (Num n) = Num n"
| "to_numeric P (Str s) = (case parse_numeric P s of None \<Rightarrow> NaN | Some n \<Rightarrow> Num n)"
| "to_numeric P (Ts t) = NaN"

fun isna :: "cell \<Rightarrow> bool" where
  "isna NaN = True"
| "isna _ = False"

text \<open>
  A table is its ordered column names and its rows; a row holds one cell per column,
  under the column's name.
\<close>

type_synonym row = "(string \<times> cell) list"

record dataframe =
  columns :: "string list"
  rows :: "row list"

definition get_cell :: "row \<Rightarrow> string \<Rightarrow> cell" where
  "get_cell r c = (case map_of r c of None \<Rightarrow> NaN | Some v \<Rightarrow> v)"

text \<open>\<^verbatim>\<open>df[c]\<close>, the values of one column in row order.\<close>

definition column :: "dataframe \<Rightarrow> string \<Rightarrow> cell list" where
  "column df c = map (\<lambda>r. get_cell r c) (rows df)"

text \<open>\<^verbatim>\<open>df[c] = f(df[c])\<close> for a column that exists and an elementwise \<open>f\<close>.\<close>

definition map_column :: "string \<Rightarrow> (cell \<Rightarrow> cell) \<Rightarrow> dataframe \<Rightarrow> dataframe" where
  "map_column c f df =
     df\<lparr>rows := map (map (\<lambda>(k, v). if k = c then (k, f v) else (k, v))) (rows df)\<rparr>"

text \<open>
  \<^verbatim>\<open>pd.DataFrame(list_of_dicts)\<close>: the columns are the keys in order of first appearance,
  and a row that lacks a key has a missing value there.
\<close>

definition first_seen :: "'a list \<Rightarrow> 'a list" where
  "first_seen xs = rev (remdups (rev xs))"

definition raw_cell :: "(string \<times> scalar) list \<Rightarrow> string \<Rightarrow> cell" where
  "raw_cell d c = (case map_of d c of None \<Rightarrow> NaN | Some v \<Rightarrow> cell_of v)"

definition DataFrame :: "(string \<times> scalar) list list \<Rightarrow> dataframe" where
  "DataFrame data =
     (let cols = first_seen (concat (map (map fst) data))
      in \<lparr>columns = cols, rows = map (\<lambda>d. map (\<lambda>c. (c, raw_cell d c)) cols) data\<rparr>)"

text \<open>\<^verbatim>\<open>df.empty\<close>: no rows, or no columns.\<close>

definition df_empty :: "dataframe \<Rightarrow> bool" where
  "df_empty df = (rows df = [] \<or> columns df = [])"

text \<open>\<^verbatim>\<open>Series.max()\<close> of a datetime column: the latest timestamp, missing values skipped.\<close>

fun ts_of :: "cell \<Rightarrow> timestamp option" where
  "ts_of (Ts t) = Some t"
| "ts_of _ = None"

definition col_max :: "cell list \<Rightarrow> timestamp option" where
  "col_max vs =
     (case List.map_filter ts_of vs of [] \<Rightarrow> None | t # ts \<Rightarrow> Some (fold max ts t))"

text \<open>
  \<^verbatim>\<open>df.sort_values(by)\<close>: ascending, missing values last; a column that does not exist is
  a \<^verbatim>\<open>KeyError\<close>. Rows with equal keys are kept in their order here (pandas promises no
  order among them; nothing below depends on it).
\<close>

fun sort_rank :: "cell \<Rightarrow> nat \<times> timestamp" where
  "sort_rank (Ts t) = (0, t)"
| "sort_rank _ = (1, ((0, 0, 0), 0))"

definition sort_values :: "string \<Rightarrow> dataframe \<Rightarrow> py_error + dataframe" where
  "sort_values by df =
     (if by \<in> set (columns df)
      then Inr (df\<lparr>rows := sort_key (\<lambda>r. sort_rank (get_cell r by)) (rows df)\<rparr>)
      else Inl (KeyError by))"

section \<open>Calls the pass makes\<close>

text \<open>
  One pass is observed through the calls it makes, in order: a request through
  \<^verbatim>\<open>api_get\<close> (URL, query parameters, timeout) and the display calls of the page body.
  Text outside ASCII is kept as its UTF-8 bytes.
\<close>

datatype pval = PStr string | PInt int

datatype event =
    ApiGet string "(string \<times> pval) list" int
  | StError string
  | StCode string
  | StWarning string
  | StInfo string
  | StSuccess string
  | StWrite string
  | StMarkdown string
  | StSubheader string
  | StMetric string string
  | StTabs "string list"
  | PlotlyLine string string string dataframe
  | StDataframe dataframe
  | DownloadButton string string string string

text \<open>How a pass ends: it runs to its last line, \<^verbatim>\<open>st.stop()\<close> halts it, or an exception does.\<close>

datatype outcome = Finished | Stopped | Crashed py_error

definition em_dash :: string where
  "em_dash = [CHR 0xE2, CHR 0x80, CHR 0x94]"

definition en_dash :: string where
  "en_dash = [CHR 0xE2, CHR 0x80, CHR 0x93]"

definition arrow :: string where
  "arrow = [CHR 0xE2, CHR 0x86, CHR 0x92]"

definition check_mark :: string where
  "check_mark = [CHR 0xE2, CHR 0x9C, CHR 0x85]"

definition warning_sign :: string where
  "warning_sign = [CHR 0xE2, CHR 0x9A, CHR 0xA0, CHR 0xEF, CHR 0xB8, CHR 0x8F]"

definition cross_mark :: string where
  "cross_mark = [CHR 0xE2, CHR 0x9D, CHR 0x8C]"

section \<open>Data quality checks (Governance tab)\<close>

text \<open>
  The script keeps two local variables, \<^verbatim>\<open>status\<close> (one of the strings OK, WARNING,
  CRITICAL) and the list \<^verbatim>\<open>issues\<close>; each check reads and updates them.
\<close>

datatype severity = OK | WARNING | CRITICAL

fun rank :: "severity \<Rightarrow> nat" where
  "rank OK = 0"
| "rank WARNING = 1"
| "rank CRITICAL = 2"

instantiation severity :: linorder
begin

definition less_eq_severity :: "severity \<Rightarrow> severity \<Rightarrow> bool" where
  "less_eq_severity a b = (rank a \<le> rank b)"

definition less_severity :: "severity \<Rightarrow> severity \<Rightarrow> bool" where
  "less_severity a b = (rank a < rank b)"

instance
proof
  fix x y :: severity
  show "x \<le> y \<Longrightarrow> y \<le> x \<Longrightarrow> x = y"
    by (cases x; cases y) (simp_all add: less_eq_severity_def)
qed (auto simp: less_eq_severity_def less_severity_def)

end

record quality =
  status :: severity
  issues :: "string list"

text \<open>\<^verbatim>\<open>status = "WARNING" if status == "OK" else status\<close>\<close>

definition escalate :: "severity \<Rightarrow> severity" where
  "escalate st = (if st = OK then WARNING else st)"

definition py_repr_str :: "string \<Rightarrow> string" where
  "py_repr_str s = [CHR 0x27] @ s @ [CHR 0x27]"

fun join :: "string \<Rightarrow> string list \<Rightarrow> string" where
  "join sep [] = []"
| "join sep [x] = x"
| "join sep (x # y # ys) = x @ sep @ join sep (y # ys)"

definition py_repr_list :: "string list \<Rightarrow> string" where
  "py_repr_list xs = ''['' @ join '', '' (map py_repr_str xs) @ '']''"

definition required :: "string list" where
  "required = [''date'', ''location'']"

definition completeness :: "dataframe \<Rightarrow> quality \<Rightarrow> quality" where
  "completeness df q =
     (let missing = filter (\<lambda>c. c \<notin> set (columns df)) required
      in if missing \<noteq> []
         then \<lparr>status = CRITICAL,
               issues = issues q @ [''Missing columns: '' @ py_repr_list missing]\<rparr>
         else q)"

definition date_validity :: "dataframe \<Rightarrow> quality \<Rightarrow> quality" where
  "date_validity df q =
     (if ''date'' \<in> set (columns df)
      then (let null_dates = length (filter isna (column df ''date''))
            in if null_dates > 0
               then \<lparr>status = escalate (status q),
                     issues = issues q @ [''Invalid date rows: '' @ str_nat null_dates]\<rparr>
               else q)
      else q)"

definition numeric_cols :: "string list" where
  "numeric_cols = [''new_cases'', ''new_deaths'', ''total_cases'', ''total_deaths'']"

text \<open>\<^verbatim>\<open>.fillna(0)\<close> on a coerced value, read as a number.\<close>

fun fillna0 :: "cell \<Rightarrow> int" where
  "fillna0 (Num n) = n"
| "fillna0 _ = 0"

definition neg_count :: "pandas \<Rightarrow> dataframe \<Rightarrow> string \<Rightarrow> nat" where
  "neg_count P df c = length (filter (\<lambda>v. fillna0 (to_numeric P v) < 0) (column df c))"

definition negative_step :: "pandas \<Rightarrow> dataframe \<Rightarrow> quality \<Rightarrow> string \<Rightarrow> quality" where
  "negative_step P df q c =
     (if c \<in> set (columns df)
      then (let neg = neg_count P df c
            in if neg > 0
               then \<lparr>status = escalate (status q),
                     issues = issues q @
                       [''Negative values detected in '' @ c @ '': '' @ str_nat neg]\<rparr>
               else q)
      else q)"

definition negative_checks :: "pandas \<Rightarrow> dataframe \<Rightarrow> quality \<Rightarrow> quality" where
  "negative_checks P df q = foldl (negative_step P df) q numeric_cols"

text \<open>\<open>today\<close> is \<^verbatim>\<open>datetime.now().date()\<close>.\<close>

definition timeliness :: "date \<Rightarrow> dataframe \<Rightarrow> quality \<Rightarrow> quality" where
  "timeliness today df q =
     (if ''date'' \<in> set (columns df)
      then (case col_max (column df ''date'') of
              None \<Rightarrow> q
            | Some t \<Rightarrow>
                (let latest = fst t; gap = days_between today latest
                 in if gap > 30
                    then \<lparr>status = escalate (status q),
                          issues = issues q @
                            [''Data timeliness warning: latest record is '' @ str_int gap @
                             '' days old.'']\<rparr>
                    else q))
      else q)"

definition quality_checks :: "pandas \<Rightarrow> date \<Rightarrow> dataframe \<Rightarrow> quality" where
  "quality_checks P today df =
     timeliness today df
       (negative_checks P df
          (date_validity df
             (completeness df \<lparr>status = OK, issues = []\<rparr>)))"

definition status_badge :: "severity \<Rightarrow> event" where
  "status_badge st =
     (if st = OK then StSuccess (''Quality Status: OK '' @ check_mark)
      else if st = WARNING then StWarning (''Quality Status: WARNING '' @ warning_sign)
      else StError (''Quality Status: CRITICAL '' @ cross_mark))"

definition render_quality :: "quality \<Rightarrow> event list" where
  "render_quality q =
     status_badge (status q) #
     (if issues q \<noteq> []
      then StMarkdown ''**Findings**'' # map (\<lambda>it. StWrite (''- '' @ it)) (issues q)
      else [StWrite ''No quality issues detected for the selected window.''])"

section \<open>Inputs of one pass\<close>

text \<open>
  The decoded responses of the three endpoints. A field is \<open>None\<close> when the key is absent
  from the JSON object.
\<close>

record metadata =
  meta_min_date :: "string option"
  meta_max_date :: "string option"
  meta_levels :: "string list option"
  meta_locations_by_level :: "(string \<times> string list) list option"

record summary =
  summary_kpi :: "(string \<times> scalar) list option"

record cases_payload =
  payload_data :: "(string \<times> scalar) list list option"

text \<open>
  Everything a pass reads from outside: the sidebar's configuration widgets, what the API
  answers to a request (or the exception \<^verbatim>\<open>requests\<close> raises), what the user picked in
  each filter widget (\<open>None\<close>: the widget shows its default), and the current date.
\<close>

record world =
  api_base_input :: string
  timeout_input :: int
  metadata_response :: "string \<Rightarrow> py_error + metadata"
  summary_response :: "string \<Rightarrow> (string \<times> pval) list \<Rightarrow> py_error + summary"
  cases_response :: "string \<Rightarrow> (string \<times> pval) list \<Rightarrow> py_error + cases_payload"
  level_pick :: "nat option"
  location_pick :: "nat option"
  date_pick :: "date list option"
  today :: date

section \<open>Sequencing\<close>

text \<open>
  A step of the pass yields the calls it made and either the way the pass ended there
  (\<open>Inl\<close>) or its result (\<open>Inr\<close>).
\<close>

type_synonym 'a step = "event list \<times> (outcome + 'a)"

definition then_do :: "'a step \<Rightarrow> ('a \<Rightarrow> 'b step) \<Rightarrow> 'b step" where
  "then_do m f =
     (case m of
        (es, Inl h) \<Rightarrow> (es, Inl h)
      | (es, Inr x) \<Rightarrow> (case f x of (es', r) \<Rightarrow> (es @ es', r)))"

definition emit :: "event list \<Rightarrow> unit step" where
  "emit es = (es, Inr ())"

definition st_stop :: "'a step" where
  "st_stop = ([], Inl Stopped)"

definition lift :: "py_error + 'a \<Rightarrow> 'a step" where
  "lift r = (case r of Inl e \<Rightarrow> ([], Inl (Crashed e)) | Inr x \<Rightarrow> ([], Inr x))"

section \<open>Helpers (lines 36 to 80)\<close>

definition rstrip_slash :: "string \<Rightarrow> string" where
  "rstrip_slash s = rev (dropWhile (\<lambda>c. c = CHR ''/'') (rev s))"

text \<open>
  \<^verbatim>\<open>fetch_metadata\<close>, \<^verbatim>\<open>fetch_summary\<close> and \<^verbatim>\<open>fetch_cases\<close> each make one call to
  \<^verbatim>\<open>api_get\<close>; the call is recorded, and an exception of the request is the result \<open>Inl\<close>.
\<close>

definition fetch_metadata :: "world \<Rightarrow> string \<Rightarrow> int \<Rightarrow> event list \<times> (py_error + metadata)" where
  "fetch_metadata w api_base timeout =
     (let url = api_base @ ''/metadata''
      in ([ApiGet url [] timeout], metadata_response w url))"

definition fetch_summary ::
  "world \<Rightarrow> string \<Rightarrow> string \<Rightarrow> string \<Rightarrow> date \<Rightarrow> date \<Rightarrow> int \<Rightarrow>
   event list \<times> (py_error + summary)" where
  "fetch_summary w api_base level location start_date end_date timeout =
     (let url = api_base @ ''/summary'';
          params = [(''level'', PStr level), (''location'', PStr location),
                    (''start'', PStr (isoformat start_date)),
                    (''end'', PStr (isoformat end_date))]
      in ([ApiGet url params timeout], summary_response w url params))"

text \<open>
  The frame \<^verbatim>\<open>fetch_cases\<close> builds from a payload (lines 72 to 75):
  \<^verbatim>\<open>payload.get("data", [])\<close>, then the date column coerced when the frame is not empty and
  has one.
\<close>

definition cases_frame :: "pandas \<Rightarrow> cases_payload \<Rightarrow> dataframe" where
  "cases_frame P payload =
     (let df = DataFrame (case payload_data payload of None \<Rightarrow> [] | Some d \<Rightarrow> d)
      in if \<not> df_empty df \<and> ''date'' \<in> set (columns df)
         then map_column ''date'' (to_datetime P) df
         else df)"

text \<open>The parameter \<open>limit\<close> is \<open>None\<close> when the caller leaves it out: it then defaults to 6000.\<close>

definition fetch_cases ::
  "pandas \<Rightarrow> world \<Rightarrow> string \<Rightarrow> string \<Rightarrow> string \<Rightarrow> date \<Rightarrow> date \<Rightarrow> int \<Rightarrow> int option \<Rightarrow>
   event list \<times> (py_error + dataframe)" where
  "fetch_cases P w api_base level location start_date end_date timeout limit =
     (let lim = (case limit of None \<Rightarrow> 6000 | Some l \<Rightarrow> l);
          url = api_base @ ''/cases'';
          params = [(''level'', PStr level), (''location'', PStr location),
                    (''start'', PStr (isoformat start_date)),
                    (''end'', PStr (isoformat end_date)),
                    (''limit'', PInt lim)]
      in ([ApiGet url params timeout],
          case cases_response w url params of
            Inl e \<Rightarrow> Inl e
          | Inr payload \<Rightarrow> Inr (cases_frame P payload)))"

definition is_space :: "char \<Rightarrow> bool" where
  "is_space c = (c \<in> set [CHR 0x20, CHR 0x09, CHR 0x0A, CHR 0x0B, CHR 0x0C, CHR 0x0D,
                           CHR 0x1C, CHR 0x1D, CHR 0x1E, CHR 0x1F])"

definition py_strip :: "string \<Rightarrow> string" where
  "py_strip s = rev (dropWhile is_space (rev (dropWhile is_space s)))"

text \<open>
  \<^verbatim>\<open>safe(v)\<close> with its default fallback, the em dash. \<^verbatim>\<open>kpi.get(k)\<close> is \<open>None\<close> for an
  absent key; a JSON null is Python's \<^verbatim>\<open>None\<close> as well.
\<close>

definition safe :: "scalar option \<Rightarrow> scalar" where
  "safe v =
     (case v of
        None \<Rightarrow> JStr em_dash
      | Some JNull \<Rightarrow> JStr em_dash
      | Some (JStr s) \<Rightarrow> if py_strip s = [] then JStr em_dash else JStr s
      | Some (JNum n) \<Rightarrow> JNum n)"

fun str_scalar :: "scalar \<Rightarrow> string" where
  "str_scalar JNull = ''None''"
| "str_scalar (JNum n) = str_int n"
| "str_scalar (JStr s) = s"

section \<open>The pass (lines 85 to 283)\<close>

text \<open>
  The static page chrome (page configuration, style sheet, title, captions, sidebar
  headers) is the same in every pass and is left out of the list of calls.
\<close>

definition str_error :: "py_error \<Rightarrow> string" where
  "str_error e =
     (case e of
        KeyError k \<Rightarrow> py_repr_str k
      | IndexError \<Rightarrow> ''list index out of range''
      | ValueError \<Rightarrow> []
      | RequestException m \<Rightarrow> m)"

text \<open>\<^verbatim>\<open>pd.to_datetime(s).date()\<close> with the default \<^verbatim>\<open>errors="raise"\<close>.\<close>

definition to_date_strict :: "pandas \<Rightarrow> string option \<Rightarrow> string \<Rightarrow> py_error + date" where
  "to_date_strict P field key =
     (case field of
        None \<Rightarrow> Inl (KeyError key)
      | Some s \<Rightarrow> (case parse_datetime P s of None \<Rightarrow> Inl ValueError | Some t \<Rightarrow> Inr (fst t)))"

text \<open>Lines 85 to 95: load the metadata; a failed request shows an error and halts.\<close>

definition load_metadata ::
  "pandas \<Rightarrow> world \<Rightarrow> string \<Rightarrow> int \<Rightarrow>
   (date \<times> date \<times> string list \<times> (string \<times> string list) list) step" where
  "load_metadata P w api_base timeout =
     (case fetch_metadata w api_base timeout of
        (es, Inl e) \<Rightarrow>
          (es @ [StError (''API tidak bisa diakses. Pastikan `python3 api.py` sedang '' @
                          ''running dan URL benar.''),
                 StCode (str_error e)], Inl Stopped)
      | (es, Inr meta) \<Rightarrow>
          then_do (es, Inr ()) (\<lambda>_.
          then_do (lift (to_date_strict P (meta_min_date meta) ''min_date'')) (\<lambda>min_date.
          then_do (lift (to_date_strict P (meta_max_date meta) ''max_date'')) (\<lambda>max_date.
            ([], Inr (min_date, max_date,
                      (case meta_levels meta of None \<Rightarrow> [''Country''] | Some ls \<Rightarrow> ls),
                      (case meta_locations_by_level meta of None \<Rightarrow> [] | Some m \<Rightarrow> m)))))))"

text \<open>
  \<^verbatim>\<open>st.selectbox(options, index)\<close>: the option the user picked, else the one at \<open>index\<close>;
  \<^verbatim>\<open>None\<close> when there are no options.
\<close>

definition selected_index :: "'a list \<Rightarrow> nat \<Rightarrow> nat option \<Rightarrow> nat" where
  "selected_index opts index pick =
     (case pick of None \<Rightarrow> index | Some i \<Rightarrow> if i < length opts then i else index)"

definition selectbox :: "'a list \<Rightarrow> nat \<Rightarrow> nat option \<Rightarrow> 'a option" where
  "selectbox opts index pick =
     (if opts = [] then None else Some (opts ! selected_index opts index pick))"

text \<open>\<^verbatim>\<open>xs.index(x)\<close> for an \<open>x\<close> that occurs in \<open>xs\<close>.\<close>

definition py_index :: "'a list \<Rightarrow> 'a \<Rightarrow> nat" where
  "py_index xs x = length (takeWhile (\<lambda>y. y \<noteq> x) xs)"

text \<open>Line 108. \<^verbatim>\<open>locs[0]\<close> of an empty list is an \<^verbatim>\<open>IndexError\<close>.\<close>

definition default_loc :: "string list \<Rightarrow> py_error + string" where
  "default_loc locs =
     (if ''Indonesia'' \<in> set locs then Inr ''Indonesia''
      else (case locs of [] \<Rightarrow> Inl IndexError | l # _ \<Rightarrow> Inr l))"

text \<open>
  Lines 111 to 118: the date-range widget returns a tuple, by default
  \<^verbatim>\<open>(min_date, max_date)\<close>; unpacking it into two names needs exactly two entries.
\<close>

definition date_input :: "date \<Rightarrow> date \<Rightarrow> date list option \<Rightarrow> py_error + (date \<times> date)" where
  "date_input min_date max_date pick =
     (case (case pick of None \<Rightarrow> [min_date, max_date] | Some ds \<Rightarrow> ds) of
        [a, b] \<Rightarrow> Inr (a, b)
      | _ \<Rightarrow> Inl ValueError)"

text \<open>
  Lines 100 to 122: the filters. The result is (level, location, start, end). With no
  level to select the widget returns \<^verbatim>\<open>None\<close>, which is no key of the mapping, so
  \<^verbatim>\<open>locs\<close> is empty then. Past the guard \<^verbatim>\<open>locs\<close> is not empty, and the location widget
  returns the option at its selected index.
\<close>

definition no_location_notice :: "(string \<times> string \<times> date \<times> date) step" where
  "no_location_notice =
     then_do (emit [StWarning ''Tidak ada location untuk level ini.'']) (\<lambda>_. st_stop)"

definition filters ::
  "world \<Rightarrow> date \<Rightarrow> date \<Rightarrow> string list \<Rightarrow> (string \<times> string list) list \<Rightarrow>
   (string \<times> string \<times> date \<times> date) step" where
  "filters w min_date max_date levels locations_by_level =
     (case selectbox levels 0 (level_pick w) of
        None \<Rightarrow> no_location_notice
      | Some level \<Rightarrow>
          (let locs = (case map_of locations_by_level level of None \<Rightarrow> [] | Some ls \<Rightarrow> ls)
           in if locs = [] then no_location_notice
              else
                then_do (lift (default_loc locs)) (\<lambda>dl.
                then_do (lift (date_input min_date max_date (date_pick w)))
                  (\<lambda>(start_date, end_date).
                    if start_date > end_date
                    then then_do
                           (emit [StError ''Start date tidak boleh lebih besar dari end date.''])
                           (\<lambda>_. st_stop)
                    else ([], Inr (level,
                                   locs ! selected_index locs (py_index locs dl) (location_pick w),
                                   start_date, end_date))))))"

text \<open>Lines 127 to 129: the two fetches; the call site passes \<^verbatim>\<open>limit=8000\<close>.\<close>

definition fetch_data ::
  "pandas \<Rightarrow> world \<Rightarrow> string \<Rightarrow> int \<Rightarrow> string \<Rightarrow> string \<Rightarrow> date \<Rightarrow> date \<Rightarrow>
   (summary \<times> dataframe) step" where
  "fetch_data P w api_base timeout level location start_date end_date =
     (case fetch_summary w api_base level location start_date end_date timeout of
        (es, r) \<Rightarrow>
          then_do (es, Inr ()) (\<lambda>_.
          then_do (lift r) (\<lambda>summary.
            (case fetch_cases P w api_base level location start_date end_date timeout
                    (Some 8000) of
               (es', r') \<Rightarrow>
                 then_do (es', Inr ()) (\<lambda>_.
                 then_do (lift r') (\<lambda>df. ([], Inr (summary, df))))))))"

definition nl :: string where
  "nl = [CHR 0x0A]"

text \<open>Lines 139 to 144: the KPI row.\<close>

definition kpi_section :: "(string \<times> scalar) list \<Rightarrow> event list" where
  "kpi_section kpi =
     [StSubheader ''Executive KPIs (Operational Dashboard)'',
      StMetric ''Total Cases'' (str_scalar (safe (map_of kpi ''total_cases''))),
      StMetric ''Total Deaths'' (str_scalar (safe (map_of kpi ''total_deaths''))),
      StMetric ''New Cases (7d)'' (str_scalar (safe (map_of kpi ''new_cases_7d''))),
      StMetric ''Data Range''
        (str_scalar (safe (map_of kpi ''min_date'')) @ '' '' @ arrow @ '' '' @
         str_scalar (safe (map_of kpi ''max_date'')))]"

definition tab_labels :: "string list" where
  "tab_labels =
     [[CHR 0xF0, CHR 0x9F, CHR 0x93, CHR 0x88] @ '' Overview'',
      [CHR 0xF0, CHR 0x9F, CHR 0xA7, CHR 0xBE] @ '' Report'',
      [CHR 0xF0, CHR 0x9F, CHR 0x9B, CHR 0xA1] @ '' Governance'']"

text \<open>Lines 158 to 160: the numeric columns that exist are coerced in place.\<close>

definition normalize_numeric :: "pandas \<Rightarrow> dataframe \<Rightarrow> dataframe" where
  "normalize_numeric P df =
     foldl (\<lambda>d col. if col \<in> set (columns d) then map_column col (to_numeric P) d else d)
       df numeric_cols"

text \<open>
  \<^verbatim>\<open>df["date"].max().date()\<close> under the guard
  \<^verbatim>\<open>"date" in df.columns and pd.notna(df["date"].max())\<close>.
\<close>

definition latest_record :: "dataframe \<Rightarrow> date option" where
  "latest_record df =
     (if ''date'' \<in> set (columns df) then map_option fst (col_max (column df ''date''))
      else None)"

definition tail :: "nat \<Rightarrow> 'a list \<Rightarrow> 'a list" where
  "tail n xs = drop (length xs - n) xs"

text \<open>The format \<^verbatim>\<open>{n:,}\<close>: decimal digits in groups of three.\<close>

fun group3 :: "string \<Rightarrow> string" where
  "group3 (a # b # c # d # rest) = a # b # c # CHR '','' # group3 (d # rest)"
| "group3 xs = xs"

definition fmt_thousands :: "nat \<Rightarrow> string" where
  "fmt_thousands n = rev (group3 (rev (str_nat n)))"

text \<open>
  Lines 154 to 185: the Overview tab. It returns the frame with its numeric columns
  coerced, which the later tabs read.
\<close>

definition line_chart :: "dataframe \<Rightarrow> string \<Rightarrow> string \<Rightarrow> unit step" where
  "line_chart df y title =
     then_do (lift (sort_values ''date'' df)) (\<lambda>sorted.
       emit [PlotlyLine ''date'' y title sorted])"

definition tab_overview ::
  "pandas \<Rightarrow> string \<Rightarrow> string \<Rightarrow> date \<Rightarrow> date \<Rightarrow> dataframe \<Rightarrow> dataframe step" where
  "tab_overview P level location start_date end_date df0 =
     (let df = normalize_numeric P df0 in
      then_do (if ''new_cases'' \<in> set (columns df)
               then line_chart df ''new_cases'' ''New Cases Over Time''
               else emit [StInfo ''Kolom `new_cases` tidak tersedia.'']) (\<lambda>_.
      then_do (if ''new_deaths'' \<in> set (columns df)
               then line_chart df ''new_deaths'' ''New Deaths Over Time''
               else emit []) (\<lambda>_.
      then_do (emit
                ([StMarkdown ''### Snapshot'',
                  StWrite (''**Level:** '' @ level),
                  StWrite (''**Location:** '' @ location),
                  StWrite (''**Window:** '' @ isoformat start_date @ '' '' @ arrow @ '' '' @
                           isoformat end_date),
                  StWrite (''**Rows:** '' @ fmt_thousands (length (rows df)))] @
                 (case latest_record df of
                    None \<Rightarrow> []
                  | Some d \<Rightarrow> [StWrite (''**Latest record:** '' @ isoformat d)]) @
                 [StMarkdown ''### Preview''])) (\<lambda>_.
      then_do (lift (sort_values ''date'' df)) (\<lambda>sorted.
      then_do (emit [StDataframe (sorted\<lparr>rows := tail 10 (rows sorted)\<rparr>)]) (\<lambda>_.
        ([], Inr df)))))))"

text \<open>Lines 190 to 218: the Report tab, with the CSV export.\<close>

definition report_context :: "string \<Rightarrow> string \<Rightarrow> date \<Rightarrow> date \<Rightarrow> string \<Rightarrow> string" where
  "report_context level location start_date end_date latest =
     nl @ ''**Context**'' @ nl @
     ''- **Level:** '' @ level @ nl @
     ''- **Location:** '' @ location @ nl @
     ''- **Reporting window:** '' @ isoformat start_date @ '' '' @ arrow @ '' '' @
        isoformat end_date @ nl @
     ''- **Latest record date:** '' @ latest @ nl @
     nl @
     ''**Decision Value**'' @ nl @
     ''- Executive KPIs + trends support quicker situational awareness.'' @ nl @
     ''- API-based design enables interoperability across systems.'' @ nl"

definition report_file_name :: "string \<Rightarrow> string \<Rightarrow> date \<Rightarrow> date \<Rightarrow> string" where
  "report_file_name level location start_date end_date =
     ''PHARS_Report_'' @ level @ ''_'' @ location @ ''_'' @ isoformat start_date @ ''_'' @
     isoformat end_date @ ''.csv''"

text \<open>
  Lines 210 and 211: \<^verbatim>\<open>df.sort_values("date").copy().to_csv(index=False).encode("utf-8")\<close>.
  Strings are byte strings here, so the encoding is the identity.
\<close>

definition export_csv :: "pandas \<Rightarrow> dataframe \<Rightarrow> py_error + string" where
  "export_csv P df =
     (case sort_values ''date'' df of
        Inl e \<Rightarrow> Inl e
      | Inr export_df \<Rightarrow> Inr (to_csv P (columns export_df) (rows export_df)))"

definition tab_report ::
  "pandas \<Rightarrow> string \<Rightarrow> string \<Rightarrow> date \<Rightarrow> date \<Rightarrow> dataframe \<Rightarrow> unit step" where
  "tab_report P level location start_date end_date df =
     then_do (emit
               [StMarkdown (''### Situation Report (SC4 '' @ en_dash @ '' Module 8)''),
                StWrite ''Audience: Public Health Agency / Hospital Management'',
                StWrite ''Purpose: weekly monitoring & resource planning.'',
                StMarkdown
                  (report_context level location start_date end_date
                     (case latest_record df of None \<Rightarrow> em_dash | Some d \<Rightarrow> isoformat d)),
                StMarkdown ''#### Export (CSV)'']) (\<lambda>_.
     then_do (lift (export_csv P df)) (\<lambda>csv_bytes.
       emit [DownloadButton ''Download CSV Report'' csv_bytes
               (report_file_name level location start_date end_date) ''text/csv'']))"

text \<open>Lines 223 to 281: the Governance tab.\<close>

definition governance_notes :: string where
  "governance_notes =
     nl @ ''- This system uses **aggregated public health data** (no personal identifiers).'' @
     nl @ ''- Recommended deployment policy:'' @
     nl @ ''  - **Public view:** aggregate KPIs only'' @
     nl @ ''  - **Analyst view:** trend + export features'' @
     nl @ ''- Auditability is supported through reproducible filters and exportable reports.'' @
     nl"

definition tab_gov :: "pandas \<Rightarrow> date \<Rightarrow> dataframe \<Rightarrow> event list" where
  "tab_gov P now df =
     [StMarkdown (''### Data Quality & Governance (SC6 '' @ en_dash @ '' Module 12)'')] @
     render_quality (quality_checks P now df) @
     [StMarkdown ''### Governance Notes'', StMarkdown governance_notes]"

text \<open>Lines 131 to 283: everything after the fetches.\<close>

definition no_data_notice :: "unit step" where
  "no_data_notice =
     then_do (emit [StWarning (''Tidak ada data untuk filter yang dipilih. Coba ganti '' @
                               ''level/location atau rentang tanggal.'')]) (\<lambda>_. st_stop)"

definition render ::
  "pandas \<Rightarrow> world \<Rightarrow> string \<Rightarrow> string \<Rightarrow> date \<Rightarrow> date \<Rightarrow> summary \<Rightarrow> dataframe \<Rightarrow> unit step" where
  "render P w level location start_date end_date summary df =
     (let kpi = (case summary_kpi summary of None \<Rightarrow> [] | Some k \<Rightarrow> k)
      in if df_empty df then no_data_notice
         else
           then_do (emit (kpi_section kpi @ [StTabs tab_labels])) (\<lambda>_.
           then_do (tab_overview P level location start_date end_date df) (\<lambda>df'.
           then_do (tab_report P level location start_date end_date df') (\<lambda>_.
             emit (tab_gov P (today w) df')))))"

text \<open>One pass of the script: the calls it makes, and how it ends.\<close>

definition run :: "pandas \<Rightarrow> world \<Rightarrow> event list \<times> outcome" where
  "run P w =
     (let API_BASE = rstrip_slash (api_base_input w);
          TIMEOUT = timeout_input w
      in case
           then_do (load_metadata P w API_BASE TIMEOUT)
             (\<lambda>(min_date, max_date, levels, locations_by_level).
           then_do (filters w min_date max_date levels locations_by_level)
             (\<lambda>(level, location, start_date, end_date).
           then_do (fetch_data P w API_BASE TIMEOUT level location start_date end_date)
             (\<lambda>(summary, df).
             render P w level location start_date end_date summary df)))
         of (es, Inl h) \<Rightarrow> (es, h)
          | (es, Inr _) \<Rightarrow> (es, Finished))"

section \<open>Sample inputs\<close>

text \<open>
  A small stand-in for pandas' readers, used where a theorem is instantiated on concrete
  data: dates are read from \<^verbatim>\<open>YYYY-MM-DD\<close>, numbers from an optional minus sign and decimal
  digits, and the CSV text has one comma-separated line per row after the header.
\<close>

fun digits_val :: "string \<Rightarrow> nat \<Rightarrow> nat option" where
  "digits_val [] acc = Some acc"
| "digits_val (c # cs) acc =
     (if c \<in> set ''0123456789'' then digits_val cs (10 * acc + py_index ''0123456789'' c)
      else None)"

definition sample_numeric :: "string \<Rightarrow> int option" where
  "sample_numeric s =
     (case s of
        [] \<Rightarrow> None
      | c # cs \<Rightarrow>
          if c = CHR ''-''
          then (if cs = [] then None else map_option (\<lambda>n. - int n) (digits_val cs 0))
          else map_option int (digits_val s 0))"

definition sample_datetime :: "string \<Rightarrow> timestamp option" where
  "sample_datetime s =
     (if length s = 10 \<and> s ! 4 = CHR ''-'' \<and> s ! 7 = CHR ''-''
      then (case (digits_val (take 4 s) 0, digits_val (take 2 (drop 5 s)) 0,
                  digits_val (drop 8 s) 0) of
              (Some y, Some m, Some d) \<Rightarrow> Some ((int y, int m, int d), 0)
            | _ \<Rightarrow> None)
      else None)"

fun sample_cell_text :: "cell \<Rightarrow> string" where
  "sample_cell_text NaN = []"
| "sample_cell_text (Num n) = str_int n"
| "sample_cell_text (Str s) = s"
| "sample_cell_text (Ts t) = isoformat (fst t)"

definition sample_to_csv :: "string list \<Rightarrow> (string \<times> cell) list list \<Rightarrow> string" where
  "sample_to_csv cols rs =
     concat (map (\<lambda>line. line @ nl)
               (join '','' cols #
                map (\<lambda>r. join '','' (map (\<lambda>c. sample_cell_text (get_cell r c)) cols)) rs))"

definition sample_pandas :: pandas where
  "sample_pandas =
     \<lparr>parse_datetime = sample_datetime, parse_numeric = sample_numeric,
      epoch_datetime = (\<lambda>n. None), to_csv = sample_to_csv\<rparr>"

text \<open>Three rows with every column, one of them with an unreadable date and a negative count.\<close>

definition sample_data :: "(string \<times> scalar) list list" where
  "sample_data =
     [[(''date'', JStr ''2023-01-02''), (''location'', JStr ''Indonesia''),
       (''new_cases'', JNum 7), (''new_deaths'', JNum 0)],
      [(''date'', JStr ''2023-01-01''), (''location'', JStr ''Indonesia''),
       (''new_cases'', JStr ''12''), (''new_deaths'', JNum (-5))],
      [(''date'', JStr ''n/a''), (''location'', JStr ''Indonesia''),
       (''new_cases'', JStr ''unknown''), (''new_deaths'', JNull)]]"

text \<open>Two clean rows.\<close>

definition clean_data :: "(string \<times> scalar) list list" where
  "clean_data =
     [[(''date'', JStr ''2023-01-01''), (''location'', JStr ''Indonesia''),
       (''new_cases'', JNum 3)],
      [(''date'', JStr ''2023-01-02''), (''location'', JStr ''Indonesia''),
       (''new_cases'', JNum 4)]]"

text \<open>Rows of a table that has no \<^verbatim>\<open>date\<close> column.\<close>

definition undated_data :: "(string \<times> scalar) list list" where
  "undated_data = [[(''location'', JStr ''Indonesia''), (''new_cases'', JNum 1)]]"

text \<open>The table the tabs read for given rows: fetched, then its numeric columns coerced.\<close>

definition frame_of :: "(string \<times> scalar) list list \<Rightarrow> dataframe" where
  "frame_of data =
     normalize_numeric sample_pandas (cases_frame sample_pandas \<lparr>payload_data = Some data\<rparr>)"

definition sample_metadata :: metadata where
  "sample_metadata =
     \<lparr>meta_min_date = Some ''2020-01-01'', meta_max_date = Some ''2023-01-01'',
      meta_levels = Some [''Country'', ''Province''],
      meta_locations_by_level = Some [(''Country'', [''Indonesia'', ''USA'']),
                                      (''Province'', [])]\<rparr>"

text \<open>
  A session against an API that serves \<open>sample_metadata\<close>, an empty KPI object and the
  given rows, with every widget at its default; the pass runs on 2023-01-10.
\<close>

definition sample_world :: "(string \<times> scalar) list list \<Rightarrow> world" where
  "sample_world data =
     \<lparr>api_base_input = ''http://api/'', timeout_input = 10,
      metadata_response = (\<lambda>url. Inr sample_metadata),
      summary_response = (\<lambda>url params. Inr \<lparr>summary_kpi = Some []\<rparr>),
      cases_response = (\<lambda>url params. Inr \<lparr>payload_data = Some data\<rparr>),
      level_pick = None, location_pick = None, date_pick = None,
      today = (2023, 1, 10)\<rparr>"

section \<open>Severity only escalates\<close>


lemma escalate_max: "escalate st = max st WARNING"
  by (cases st) (simp_all add: escalate_def max_def less_eq_severity_def)

lemma max_OK [simp]: "max (s::severity) OK = s" "max OK s = s"
  by (simp_all add: max_def less_eq_severity_def) (cases s; simp)+

lemma max_CRITICAL: "max (s::severity) CRITICAL = CRITICAL"
  by (cases s) (simp_all add: max_def less_eq_severity_def)


lemma completeness_split:
  "status (completeness df q) = max (status q) (status (completeness df \<lparr>status = OK, issues = []\<rparr>))"
  "issues (completeness df q) = issues q @ issues (completeness df \<lparr>status = OK, issues = []\<rparr>)"
  by (auto simp: completeness_def Let_def max_CRITICAL)

lemma date_validity_split:
  "status (date_validity df q) = max (status q) (status (date_validity df \<lparr>status = OK, issues = []\<rparr>))"
  "issues (date_validity df q) = issues q @ issues (date_validity df \<lparr>status = OK, issues = []\<rparr>)"
  by (auto simp: date_validity_def Let_def escalate_max)

lemma negative_step_split:
  "status (negative_step P df q c) = max (status q) (status (negative_step P df \<lparr>status = OK, issues = []\<rparr> c))"
  "issues (negative_step P df q c) = issues q @ issues (negative_step P df \<lparr>status = OK, issues = []\<rparr> c)"
  by (auto simp: negative_step_def Let_def escalate_max)

lemma foldl_negative_split:
  "status (foldl (negative_step P df) q cs) =
     max (status q) (status (foldl (negative_step P df) \<lparr>status = OK, issues = []\<rparr> cs)) \<and>
   issues (foldl (negative_step P df) q cs) =
     issues q @ issues (foldl (negative_step P df) \<lparr>status = OK, issues = []\<rparr> cs)"
proof (induction cs arbitrary: q)
  case Nil
  show ?case by simp
next
  case (Cons c cs)
  have a: "status (foldl (negative_step P df) (negative_step P df q c) cs) =
      max (status (negative_step P df q c)) (status (foldl (negative_step P df) \<lparr>status = OK, issues = []\<rparr> cs))"
    and b: "issues (foldl (negative_step P df) (negative_step P df q c) cs) =
      issues (negative_step P df q c) @ issues (foldl (negative_step P df) \<lparr>status = OK, issues = []\<rparr> cs)"
    using Cons.IH [of "negative_step P df q c"] by simp_all
  have a0: "status (foldl (negative_step P df) (negative_step P df \<lparr>status = OK, issues = []\<rparr> c) cs) =
      max (status (negative_step P df \<lparr>status = OK, issues = []\<rparr> c)) (status (foldl (negative_step P df) \<lparr>status = OK, issues = []\<rparr> cs))"
    and b0: "issues (foldl (negative_step P df) (negative_step P df \<lparr>status = OK, issues = []\<rparr> c) cs) =
      issues (negative_step P df \<lparr>status = OK, issues = []\<rparr> c) @ issues (foldl (negative_step P df) \<lparr>status = OK, issues = []\<rparr> cs)"
    using Cons.IH [of "negative_step P df \<lparr>status = OK, issues = []\<rparr> c"] by simp_all
  show ?case
    using a b a0 b0 negative_step_split [of P df q c]
    by (simp add: max.assoc)
qed

lemma negative_checks_split:
  "status (negative_checks P df q) = max (status q) (status (negative_checks P df \<lparr>status = OK, issues = []\<rparr>))"
  "issues (negative_checks P df q) = issues q @ issues (negative_checks P df \<lparr>status = OK, issues = []\<rparr>)"
  using foldl_negative_split [of P df q numeric_cols] by (simp_all add: negative_checks_def)

lemma timeliness_split:
  "status (timeliness now df q) = max (status q) (status (timeliness now df \<lparr>status = OK, issues = []\<rparr>))"
  "issues (timeliness now df q) = issues q @ issues (timeliness now df \<lparr>status = OK, issues = []\<rparr>)"
  by (auto simp: timeliness_def Let_def escalate_max split: option.splits)


lemma negative_step_char:
  "negative_step P df q c =
     (if c \<in> set (columns df) \<and> 0 < neg_count P df c
      then \<lparr>status = max (status q) WARNING,
            issues = issues q @
              [''Negative values detected in '' @ c @ '': '' @ str_nat (neg_count P df c)]\<rparr>
      else q)"
  by (simp add: negative_step_def Let_def escalate_max)

lemma foldl_negative_char:
  "issues (foldl (negative_step P df) q cs) =
     issues q @
     map (\<lambda>c. ''Negative values detected in '' @ c @ '': '' @ str_nat (neg_count P df c))
       (filter (\<lambda>c. c \<in> set (columns df) \<and> 0 < neg_count P df c) cs)
   \<and> status (foldl (negative_step P df) q cs) =
     (if filter (\<lambda>c. c \<in> set (columns df) \<and> 0 < neg_count P df c) cs = [] then status q
      else max (status q) WARNING)"
proof (induction cs arbitrary: q)
  case Nil
  show ?case by simp
next
  case (Cons c cs)
  show ?case
    using Cons.IH [of "negative_step P df q c"]
    by (simp add: negative_step_char max.assoc)
qed

lemma negative_quiet:
  assumes "issues (negative_checks P df \<lparr>status = OK, issues = []\<rparr>) = []"
  shows "status (negative_checks P df \<lparr>status = OK, issues = []\<rparr>) = OK"
proof -
  have "filter (\<lambda>c. c \<in> set (columns df) \<and> 0 < neg_count P df c) numeric_cols = []"
    using assms foldl_negative_char [of P df "\<lparr>status = OK, issues = []\<rparr>" numeric_cols]
    by (simp add: negative_checks_def)
  then show ?thesis
    using foldl_negative_char [of P df "\<lparr>status = OK, issues = []\<rparr>" numeric_cols]
    by (simp add: negative_checks_def)
qed

lemma split_mono: "(s::severity) \<le> max s t"
  by simp
text \<open>
  Claim C1. One pass of the quality checks runs completeness, date validity, non-negativity
  and timeliness in that order, starting from OK with no findings. No check lowers the
  status it is given; the final status is the maximum of what each check alone reports;
  the findings are those of the checks in execution order; and with no finding at all the
  page shows the OK badge and the explicit line that no issue was detected.
\<close>

theorem quality_pass:
  "quality_checks P now df =
     timeliness now df (negative_checks P df (date_validity df
       (completeness df \<lparr>status = OK, issues = []\<rparr>)))
   \<and> status q \<le> status (completeness df q)
   \<and> status q \<le> status (date_validity df q)
   \<and> status q \<le> status (negative_checks P df q)
   \<and> status q \<le> status (timeliness now df q)
   \<and> status (quality_checks P now df) =
       max (status (completeness df \<lparr>status = OK, issues = []\<rparr>))
        (max (status (date_validity df \<lparr>status = OK, issues = []\<rparr>))
          (max (status (negative_checks P df \<lparr>status = OK, issues = []\<rparr>))
               (status (timeliness now df \<lparr>status = OK, issues = []\<rparr>))))
   \<and> issues (quality_checks P now df) =
       issues (completeness df \<lparr>status = OK, issues = []\<rparr>) @
       issues (date_validity df \<lparr>status = OK, issues = []\<rparr>) @
       issues (negative_checks P df \<lparr>status = OK, issues = []\<rparr>) @
       issues (timeliness now df \<lparr>status = OK, issues = []\<rparr>)
   \<and> (issues (quality_checks P now df) = [] \<longrightarrow>
        render_quality (quality_checks P now df) =
          [StSuccess (''Quality Status: OK '' @ check_mark),
           StWrite ''No quality issues detected for the selected window.''])"
proof -
  let ?q0 = "\<lparr>status = OK, issues = []\<rparr>"
  let ?c = "completeness df ?q0"
  let ?d = "date_validity df ?c"
  let ?n = "negative_checks P df ?d"
  have unfold: "quality_checks P now df = timeliness now df ?n"
    by (simp add: quality_checks_def)
  have m1: "status q \<le> status (completeness df q)"
    by (subst completeness_split(1)) (rule split_mono)
  have m2: "status q \<le> status (date_validity df q)"
    by (subst date_validity_split(1)) (rule split_mono)
  have m3: "status q \<le> status (negative_checks P df q)"
    by (subst negative_checks_split(1)) (rule split_mono)
  have m4: "status q \<le> status (timeliness now df q)"
    by (subst timeliness_split(1)) (rule split_mono)
  have st: "status (timeliness now df ?n) =
      max (status ?c) (max (status (date_validity df ?q0))
        (max (status (negative_checks P df ?q0)) (status (timeliness now df ?q0))))"
    by (simp add: timeliness_split(1) [of now df ?n] negative_checks_split(1) [of P df ?d]
        date_validity_split(1) [of df ?c] max.assoc)
  have iss: "issues (timeliness now df ?n) =
      issues ?c @ issues (date_validity df ?q0) @ issues (negative_checks P df ?q0) @
      issues (timeliness now df ?q0)"
    by (simp add: timeliness_split(2) [of now df ?n] negative_checks_split(2) [of P df ?d]
        date_validity_split(2) [of df ?c])
  have quiet: "issues (timeliness now df ?n) = [] \<longrightarrow>
      render_quality (timeliness now df ?n) =
        [StSuccess (''Quality Status: OK '' @ check_mark),
         StWrite ''No quality issues detected for the selected window.'']"
  proof
    assume e: "issues (timeliness now df ?n) = []"
    then have e4: "issues ?c = []" "issues (date_validity df ?q0) = []"
      "issues (negative_checks P df ?q0) = []" "issues (timeliness now df ?q0) = []"
      using iss by simp_all
    have s1: "status ?c = OK"
      using e4(1) by (auto simp: completeness_def Let_def split: if_splits)
    have s2: "status (date_validity df ?q0) = OK"
      using e4(2) by (auto simp: date_validity_def Let_def split: if_splits)
    have s3: "status (negative_checks P df ?q0) = OK"
      using e4(3) by (rule negative_quiet)
    have s4: "status (timeliness now df ?q0) = OK"
      using e4(4) by (auto simp: timeliness_def Let_def split: if_splits option.splits)
    have "status (timeliness now df ?n) = OK"
      using st s1 s2 s3 s4 by simp
    then show "render_quality (timeliness now df ?n) =
        [StSuccess (''Quality Status: OK '' @ check_mark),
         StWrite ''No quality issues detected for the selected window.'']"
      using e by (simp add: render_quality_def status_badge_def)
  qed
  show ?thesis
    using unfold m1 m2 m3 m4 st iss quiet by simp
qed


theorem quality_pass_witness:
  "quality_checks sample_pandas (2023, 3, 1) (frame_of sample_data) =
     \<lparr>status = WARNING,
      issues = [''Invalid date rows: 1'', ''Negative values detected in new_deaths: 1'',
                ''Data timeliness warning: latest record is 58 days old.'']\<rparr>
   \<and> issues (quality_checks sample_pandas (2023, 1, 10) (frame_of clean_data)) = []
   \<and> render_quality (quality_checks sample_pandas (2023, 1, 10) (frame_of clean_data)) =
       [StSuccess (''Quality Status: OK '' @ check_mark),
        StWrite ''No quality issues detected for the selected window.'']"
proof -
  have quiet: "issues (quality_checks sample_pandas (2023, 1, 10) (frame_of clean_data)) = []"
    by code_simp
  have loud: "quality_checks sample_pandas (2023, 3, 1) (frame_of sample_data) =
     \<lparr>status = WARNING,
      issues = [''Invalid date rows: 1'', ''Negative values detected in new_deaths: 1'',
                ''Data timeliness warning: latest record is 58 days old.'']\<rparr>"
    by code_simp
  have "issues (quality_checks sample_pandas (2023, 1, 10) (frame_of clean_data)) = [] \<longrightarrow>
      render_quality (quality_checks sample_pandas (2023, 1, 10) (frame_of clean_data)) =
        [StSuccess (''Quality Status: OK '' @ check_mark),
         StWrite ''No quality issues detected for the selected window.'']"
    using quality_pass [of sample_pandas "(2023, 1, 10)" "frame_of clean_data"
        "\<lparr>status = OK, issues = []\<rparr>"]
    by blast
  then show ?thesis
    using quiet loud by (intro conjI) (assumption, assumption, erule mp)
qed

section \<open>The non-negativity check\<close>

lemma neg_count_rows:
  "neg_count P df c =
     length (filter (\<lambda>r. case to_numeric P (get_cell r c) of Num n \<Rightarrow> n < 0 | _ \<Rightarrow> False)
               (rows df))"
proof -
  have "fillna0 v < 0 \<longleftrightarrow> (case v of Num n \<Rightarrow> n < 0 | _ \<Rightarrow> False)" for v
    by (cases v) simp_all
  then show ?thesis
    by (simp add: neg_count_def column_def filter_map comp_def)
qed

text \<open>
  Claim C5, as the code has it. The check looks at the columns new_cases, new_deaths,
  total_cases and total_deaths that the table has, in that order; for each it counts the
  rows whose value, read as a number, is below zero (a missing or unreadable value is not);
  each column with a positive count adds one finding, whose text is
  \<^verbatim>\<open>Negative values detected in <column>: <count>\<close>, and raises the status to at least
  WARNING. A table with exactly one negative new_deaths value gets the finding
  \<^verbatim>\<open>Negative values detected in new_deaths: 1\<close>.
\<close>

theorem negative_check_findings:
  "issues (negative_checks P df q) =
     issues q @
     map (\<lambda>c. ''Negative values detected in '' @ c @ '': '' @ str_nat (neg_count P df c))
       (filter (\<lambda>c. c \<in> set (columns df) \<and> 0 < neg_count P df c)
          [''new_cases'', ''new_deaths'', ''total_cases'', ''total_deaths''])
   \<and> status (negative_checks P df q) =
       (if filter (\<lambda>c. c \<in> set (columns df) \<and> 0 < neg_count P df c)
             [''new_cases'', ''new_deaths'', ''total_cases'', ''total_deaths''] = []
        then status q else max (status q) WARNING)
   \<and> neg_count P df c =
       length (filter (\<lambda>r. case to_numeric P (get_cell r c) of Num n \<Rightarrow> n < 0 | _ \<Rightarrow> False)
                 (rows df))
   \<and> (''new_deaths'' \<in> set (columns df) \<and> neg_count P df ''new_deaths'' = 1 \<longrightarrow>
        ''Negative values detected in new_deaths: 1'' \<in> set (issues (negative_checks P df q)) \<and>
        WARNING \<le> status (negative_checks P df q))"
proof -
  let ?hit = "\<lambda>c. c \<in> set (columns df) \<and> 0 < neg_count P df c"
  let ?cols = "[''new_cases'', ''new_deaths'', ''total_cases'', ''total_deaths'']"
  have char: "issues (negative_checks P df q) =
      issues q @
      map (\<lambda>c. ''Negative values detected in '' @ c @ '': '' @ str_nat (neg_count P df c))
        (filter ?hit ?cols)"
    "status (negative_checks P df q) =
      (if filter ?hit ?cols = [] then status q else max (status q) WARNING)"
    using foldl_negative_char [of P df q numeric_cols]
    by (simp_all add: negative_checks_def numeric_cols_def)
  have scenario: "''Negative values detected in new_deaths: 1'' \<in> set (issues (negative_checks P df q)) \<and>
      WARNING \<le> status (negative_checks P df q)"
    if h: "''new_deaths'' \<in> set (columns df) \<and> neg_count P df ''new_deaths'' = 1"
  proof -
    have mem: "''new_deaths'' \<in> set (filter ?hit ?cols)"
      using h by simp
    have "''Negative values detected in '' @ ''new_deaths'' @ '': '' @
            str_nat (neg_count P df ''new_deaths'') \<in> set (issues (negative_checks P df q))"
      unfolding char(1) using mem by (simp only: set_append set_map) blast
    then have a: "''Negative values detected in new_deaths: 1'' \<in> set (issues (negative_checks P df q))"
      using h by simp
    have "filter ?hit ?cols \<noteq> []"
      using mem by (metis empty_iff empty_set)
    then have b: "WARNING \<le> status (negative_checks P df q)"
      unfolding char(2) by simp
    show ?thesis using a b by simp
  qed
  show ?thesis
    using char neg_count_rows [of P df c] scenario by blast
qed

theorem negative_check_findings_witness:
  "issues (negative_checks sample_pandas (frame_of sample_data) \<lparr>status = OK, issues = []\<rparr>) =
     [''Negative values detected in new_deaths: 1'']
   \<and> WARNING \<le> status (negative_checks sample_pandas (frame_of sample_data)
                        \<lparr>status = OK, issues = []\<rparr>)"
proof -
  have h: "''new_deaths'' \<in> set (columns (frame_of sample_data)) \<and>
      neg_count sample_pandas (frame_of sample_data) ''new_deaths'' = 1"
    by code_simp
  have e: "issues (negative_checks sample_pandas (frame_of sample_data)
              \<lparr>status = OK, issues = []\<rparr>) = [''Negative values detected in new_deaths: 1'']"
    by code_simp
  have "''new_deaths'' \<in> set (columns (frame_of sample_data)) \<and>
      neg_count sample_pandas (frame_of sample_data) ''new_deaths'' = 1 \<longrightarrow>
      ''Negative values detected in new_deaths: 1'' \<in>
        set (issues (negative_checks sample_pandas (frame_of sample_data)
               \<lparr>status = OK, issues = []\<rparr>)) \<and>
      WARNING \<le> status (negative_checks sample_pandas (frame_of sample_data)
                    \<lparr>status = OK, issues = []\<rparr>)"
    using negative_check_findings [of sample_pandas "frame_of sample_data"
        "\<lparr>status = OK, issues = []\<rparr>" "''new_deaths''"]
    by blast
  then show ?thesis
    using h e by blast
qed

text \<open>
  The finding for that table is not the bare text \<^verbatim>\<open>new_deaths: 1\<close>: the list of findings
  holds the full sentence only.
\<close>

theorem negative_finding_text_counterexample:
  "''new_deaths: 1'' \<notin>
     set (issues (negative_checks sample_pandas (frame_of sample_data)
            \<lparr>status = OK, issues = []\<rparr>))
   \<and> neg_count sample_pandas (frame_of sample_data) ''new_deaths'' = 1
   \<and> get_cell (rows (frame_of sample_data) ! 1) ''new_deaths'' = Num (- 5)"
  by code_simp

section \<open>The timeliness check\<close>

lemma set_map_filter_ts: "set (List.map_filter ts_of vs) = {t. Ts t \<in> set vs}"
proof (induction vs)
  case Nil
  show ?case by simp
next
  case (Cons v vs)
  then show ?case
    by (cases v) auto
qed

lemma col_max_None: "col_max vs = None \<longleftrightarrow> (\<forall>t. Ts t \<notin> set vs)"
proof -
  have "col_max vs = None \<longleftrightarrow> List.map_filter ts_of vs = []"
    by (simp add: col_max_def split: list.splits)
  also have "\<dots> \<longleftrightarrow> set (List.map_filter ts_of vs) = {}"
    by simp
  also have "\<dots> \<longleftrightarrow> (\<forall>t. Ts t \<notin> set vs)"
    unfolding set_map_filter_ts by blast
  finally show ?thesis .
qed

lemma col_max_Some:
  assumes "col_max vs = Some m"
  shows "Ts m \<in> set vs" and "Ts t \<in> set vs \<Longrightarrow> t \<le> m"
proof -
  obtain x xs where xs: "List.map_filter ts_of vs = x # xs" and m: "m = fold max xs x"
    using assms by (auto simp: col_max_def split: list.splits)
  have mx: "m = Max (set (x # xs))"
    using m by (simp only: Max.set_eq_fold)
  have "m \<in> set (x # xs)"
    unfolding mx by (rule Max_in) simp_all
  then show "Ts m \<in> set vs"
    using set_map_filter_ts [of vs] xs by auto
  show "t \<le> m" if "Ts t \<in> set vs"
  proof -
    have "t \<in> set (x # xs)"
      using that set_map_filter_ts [of vs] xs by auto
    then show ?thesis
      unfolding mx by (intro Max_ge) simp_all
  qed
qed

lemma fst_mono_lex: "(a::timestamp) \<le> b \<Longrightarrow> fst a \<le> fst b"
  by (cases a; cases b) (auto simp: less_eq_prod_def)

text \<open>
  Claim C6. With \<open>d\<close> the latest date in the table's date column (the date of some row, and
  no row has a later one), the check raises the status to at least WARNING and adds one
  finding that states the gap in days exactly when the current date is more than 30 days
  after \<open>d\<close>; otherwise it changes nothing. When the table has no date column or no row
  with a valid date, there is no such \<open>d\<close> and the check changes nothing.
\<close>

theorem timeliness_check:
  "(case latest_record df of
      None \<Rightarrow> timeliness now df q = q
    | Some d \<Rightarrow>
        (if 30 < days_between now d
         then status (timeliness now df q) = max (status q) WARNING \<and>
              WARNING \<le> status (timeliness now df q) \<and>
              issues (timeliness now df q) =
                issues q @ [''Data timeliness warning: latest record is '' @
                            str_int (days_between now d) @ '' days old.'']
         else timeliness now df q = q))
   \<and> (latest_record df = None \<longleftrightarrow>
        \<not> (''date'' \<in> set (columns df) \<and> (\<exists>t. Ts t \<in> set (column df ''date''))))
   \<and> (\<forall>d. latest_record df = Some d \<longrightarrow>
        (\<exists>t. Ts t \<in> set (column df ''date'') \<and> fst t = d) \<and>
        (\<forall>t. Ts t \<in> set (column df ''date'') \<longrightarrow> fst t \<le> d))"
proof (intro conjI allI impI)
  show "case latest_record df of
      None \<Rightarrow> timeliness now df q = q
    | Some d \<Rightarrow>
        (if 30 < days_between now d
         then status (timeliness now df q) = max (status q) WARNING \<and>
              WARNING \<le> status (timeliness now df q) \<and>
              issues (timeliness now df q) =
                issues q @ [''Data timeliness warning: latest record is '' @
                            str_int (days_between now d) @ '' days old.'']
         else timeliness now df q = q)"
    by (auto simp: latest_record_def timeliness_def Let_def escalate_max split: option.splits)
  show "latest_record df = None \<longleftrightarrow>
      \<not> (''date'' \<in> set (columns df) \<and> (\<exists>t. Ts t \<in> set (column df ''date'')))"
    using col_max_None [of "column df ''date''"] by (auto simp: latest_record_def)
next
  fix d
  assume h: "latest_record df = Some d"
  then obtain m where m: "col_max (column df ''date'') = Some m" and d: "d = fst m"
    by (auto simp: latest_record_def split: if_splits)
  show "\<exists>t. Ts t \<in> set (column df ''date'') \<and> fst t = d"
    using col_max_Some(1) [OF m] d by blast
  show "fst t \<le> d" if "Ts t \<in> set (column df ''date'')" for t
    using col_max_Some(2) [OF m that] d fst_mono_lex by blast
qed

theorem timeliness_check_witness:
  "latest_record (frame_of sample_data) = Some (2023, 1, 2)
   \<and> days_between (2023, 3, 1) (2023, 1, 2) = 58
   \<and> timeliness (2023, 3, 1) (frame_of sample_data) \<lparr>status = OK, issues = []\<rparr> =
       \<lparr>status = WARNING,
        issues = [''Data timeliness warning: latest record is 58 days old.'']\<rparr>
   \<and> days_between (2023, 2, 1) (2023, 1, 2) = 30
   \<and> timeliness (2023, 2, 1) (frame_of sample_data) \<lparr>status = OK, issues = []\<rparr> =
       \<lparr>status = OK, issues = []\<rparr>
   \<and> latest_record (frame_of undated_data) = None
   \<and> timeliness (2023, 3, 1) (frame_of undated_data) \<lparr>status = OK, issues = []\<rparr> =
       \<lparr>status = OK, issues = []\<rparr>"
proof -
  have l: "latest_record (frame_of sample_data) = Some (2023, 1, 2)"
    by code_simp
  have g: "days_between (2023, 3, 1) (2023, 1, 2) = 58"
    by code_simp
  have g': "days_between (2023, 2, 1) (2023, 1, 2) = 30"
    by code_simp
  have n: "latest_record (frame_of undated_data) = None"
    by code_simp
  have late: "status (timeliness (2023, 3, 1) (frame_of sample_data) \<lparr>status = OK, issues = []\<rparr>) =
        WARNING \<and>
      issues (timeliness (2023, 3, 1) (frame_of sample_data) \<lparr>status = OK, issues = []\<rparr>) =
        [''Data timeliness warning: latest record is 58 days old.'']"
    using timeliness_check [where df = "frame_of sample_data" and now = "(2023, 3, 1)"
        and q = "\<lparr>status = OK, issues = []\<rparr>"]
    by (simp add: l g str_int_def)
  have fresh: "timeliness (2023, 2, 1) (frame_of sample_data) \<lparr>status = OK, issues = []\<rparr> =
      \<lparr>status = OK, issues = []\<rparr>"
    using timeliness_check [where df = "frame_of sample_data" and now = "(2023, 2, 1)"
        and q = "\<lparr>status = OK, issues = []\<rparr>"]
    by (simp add: l g')
  have skipped: "timeliness (2023, 3, 1) (frame_of undated_data) \<lparr>status = OK, issues = []\<rparr> =
      \<lparr>status = OK, issues = []\<rparr>"
    using timeliness_check [where df = "frame_of undated_data" and now = "(2023, 3, 1)"
        and q = "\<lparr>status = OK, issues = []\<rparr>"]
    by (simp add: n)
  show ?thesis
    using l g g' n late fresh skipped by simp
qed

section \<open>Normalisation keeps every row\<close>

lemma to_numeric_idem: "to_numeric P (to_numeric P v) = to_numeric P v"
  by (cases v) (auto split: option.splits)

lemma map_of_map_value:
  "map_of (map (\<lambda>(k, v). (k, g k v)) r) c = map_option (g c) (map_of r c)"
  by (induction r) auto

lemma get_cell_map_value:
  "get_cell (map (\<lambda>(k, v). (k, g k v)) r) c =
     (case map_of r c of None \<Rightarrow> NaN | Some v \<Rightarrow> g c v)"
  by (simp add: get_cell_def map_of_map_value split: option.splits)

lemma map_column_alt:
  "map_column c f df =
     df\<lparr>rows := map (map (\<lambda>(k, v). (k, if k = c then f v else v))) (rows df)\<rparr>"
proof -
  have "(\<lambda>(k, v). if k = c then (k, f v) else (k, v)) = (\<lambda>(k, v). (k, if k = c then f v else v))"
    by (auto simp: fun_eq_iff)
  then show ?thesis
    by (simp add: map_column_def)
qed

lemma foldl_numeric:
  "foldl (\<lambda>d col. if col \<in> set (columns d) then map_column col (to_numeric P) d else d) df cs =
     df\<lparr>rows := map (map (\<lambda>(k, v). (k, if k \<in> set cs \<and> k \<in> set (columns df)
                                        then to_numeric P v else v))) (rows df)\<rparr>"
proof (induction cs arbitrary: df)
  case Nil
  show ?case by simp
next
  case (Cons c cs)
  let ?step = "\<lambda>d col. if col \<in> set (columns d) then map_column col (to_numeric P) d else d"
  have cols: "columns (?step df c) = columns df"
    by (simp add: map_column_alt)
  have comp: "(\<lambda>(k, v). (k, if k \<in> set cs \<and> k \<in> set (columns df) then to_numeric P v else v)) \<circ>
        (\<lambda>(k, v). (k, if k = c then to_numeric P v else v)) =
      (\<lambda>(k, v). (k, if k \<in> set (c # cs) \<and> k \<in> set (columns df) then to_numeric P v else v))"
    if "c \<in> set (columns df)"
    using that by (auto simp: fun_eq_iff to_numeric_idem)
  have same: "(\<lambda>(k, v). (k, if k \<in> set cs \<and> k \<in> set (columns df) then to_numeric P v else v)) =
      (\<lambda>(k, v). (k, if k \<in> set (c # cs) \<and> k \<in> set (columns df) then to_numeric P v else v))"
    if "c \<notin> set (columns df)"
    using that by (auto simp: fun_eq_iff)
  show ?case
  proof (cases "c \<in> set (columns df)")
    case True
    then show ?thesis
      using Cons.IH [of "map_column c (to_numeric P) df"] comp [OF True]
      by (simp add: map_column_alt)
  next
    case False
    then show ?thesis
      using Cons.IH [of df] same [OF False] by simp
  qed
qed

lemma normalize_numeric_alt:
  "normalize_numeric P df =
     df\<lparr>rows := map (map (\<lambda>(k, v). (k, if k \<in> set numeric_cols \<and> k \<in> set (columns df)
                                        then to_numeric P v else v))) (rows df)\<rparr>"
  by (simp add: normalize_numeric_def foldl_numeric)

lemma map_of_keyed: "map_of (map (\<lambda>c. (c, f c)) cols) c = (if c \<in> set cols then Some (f c) else None)"
  by (induction cols) auto

lemma cases_frame_shape:
  "columns (cases_frame P payload) =
     first_seen (concat (map (map fst) (case payload_data payload of None \<Rightarrow> [] | Some d \<Rightarrow> d)))"
  "length (rows (cases_frame P payload)) =
     length (case payload_data payload of None \<Rightarrow> [] | Some d \<Rightarrow> d)"
  by (simp_all add: cases_frame_def DataFrame_def Let_def map_column_alt)

lemma cases_frame_cell:
  assumes "i < length data" and "c \<in> set (columns (cases_frame P \<lparr>payload_data = Some data\<rparr>))"
  shows "get_cell (rows (cases_frame P \<lparr>payload_data = Some data\<rparr>) ! i) c =
     (if c = ''date'' then to_datetime P (raw_cell (data ! i) c) else raw_cell (data ! i) c)"
proof -
  let ?cols = "first_seen (concat (map (map fst) data))"
  have c: "c \<in> set ?cols"
    using assms(2) by (simp add: cases_frame_shape)
  have ne: "\<not> df_empty (DataFrame data)"
    using assms(1) c by (auto simp: df_empty_def DataFrame_def Let_def)
  show ?thesis
  proof (cases "c = ''date''")
    case True
    then have "''date'' \<in> set (columns (DataFrame data))"
      using c by (simp add: DataFrame_def Let_def)
    then show ?thesis
      using ne assms(1) c True
      by (simp add: cases_frame_def map_column_alt DataFrame_def Let_def comp_def
          get_cell_def map_of_keyed)
  next
    case False
    then show ?thesis
      using assms(1) c
      by (auto simp: cases_frame_def map_column_alt DataFrame_def Let_def comp_def
          get_cell_def map_of_keyed)
  qed
qed

lemma get_cell_numeric:
  "get_cell (map (\<lambda>(k, v). (k, if p k then to_numeric P v else v)) r) c =
     (if p c then to_numeric P (get_cell r c) else get_cell r c)"
  by (induction r) (auto simp: get_cell_def)

lemma normalize_numeric_shape:
  "columns (normalize_numeric P df) = columns df"
  "length (rows (normalize_numeric P df)) = length (rows df)"
  by (subst normalize_numeric_alt, simp)+

lemma set_first_seen: "set (first_seen xs) = set xs"
  by (simp add: first_seen_def)

lemma key_is_column:
  assumes "i < length data" and "map_of (data ! i) c = Some v"
  shows "c \<in> set (first_seen (concat (map (map fst) data)))"
proof -
  have "c \<in> fst ` set (data ! i)"
    using assms(2) by (metis domI dom_map_of_conv_image_fst)
  moreover have "data ! i \<in> set data"
    using assms(1) by simp
  ultimately show ?thesis
    unfolding set_first_seen by auto
qed

text \<open>
  Claim C3. Normalisation is the frame built by \<^verbatim>\<open>fetch_cases\<close> followed by the numeric
  coercion loop. For every list of rows in the payload and every choice of what pandas can
  read: the result has as many rows as the payload and the payload's keys as columns; each
  cell is the payload's value, coerced to a timestamp in the date column and to a number in
  the four numeric columns; a date string that cannot be read becomes a missing value, and
  so does a numeric string that cannot be read; an empty or absent row list gives the empty
  table; and whenever the request returns a payload, \<^verbatim>\<open>fetch_cases\<close> returns the frame and
  no error.
\<close>

theorem normalize_keeps_rows:
  "length (rows (normalize_numeric P (cases_frame P \<lparr>payload_data = Some data\<rparr>))) = length data
   \<and> columns (normalize_numeric P (cases_frame P \<lparr>payload_data = Some data\<rparr>)) =
       first_seen (concat (map (map fst) data))
   \<and> (\<forall>i c. i < length data \<and> c \<in> set (first_seen (concat (map (map fst) data))) \<longrightarrow>
        get_cell (rows (normalize_numeric P (cases_frame P \<lparr>payload_data = Some data\<rparr>)) ! i) c =
          (if c = ''date'' then to_datetime P (raw_cell (data ! i) c)
           else if c \<in> set numeric_cols then to_numeric P (raw_cell (data ! i) c)
           else raw_cell (data ! i) c))
   \<and> (\<forall>i s. i < length data \<and> map_of (data ! i) ''date'' = Some (JStr s) \<and>
              parse_datetime P s = None \<longrightarrow>
        get_cell (rows (normalize_numeric P (cases_frame P \<lparr>payload_data = Some data\<rparr>)) ! i)
          ''date'' = NaN)
   \<and> (\<forall>i c s. i < length data \<and> c \<in> set numeric_cols \<and> map_of (data ! i) c = Some (JStr s) \<and>
              parse_numeric P s = None \<longrightarrow>
        get_cell (rows (normalize_numeric P (cases_frame P \<lparr>payload_data = Some data\<rparr>)) ! i) c =
          NaN)
   \<and> normalize_numeric P (cases_frame P \<lparr>payload_data = Some []\<rparr>) = \<lparr>columns = [], rows = []\<rparr>
   \<and> normalize_numeric P (cases_frame P \<lparr>payload_data = None\<rparr>) = \<lparr>columns = [], rows = []\<rparr>
   \<and> (\<forall>payload. cases_response w (api_base @ ''/cases'')
          [(''level'', PStr level), (''location'', PStr location),
           (''start'', PStr (isoformat start_date)), (''end'', PStr (isoformat end_date)),
           (''limit'', PInt (case limit of None \<Rightarrow> 6000 | Some l \<Rightarrow> l))] = Inr payload \<longrightarrow>
        snd (fetch_cases P w api_base level location start_date end_date timeout limit) =
          Inr (cases_frame P payload))"
proof -
  let ?fetched = "cases_frame P \<lparr>payload_data = Some data\<rparr>"
  let ?f = "normalize_numeric P ?fetched"
  let ?cols = "first_seen (concat (map (map fst) data))"
  have len: "length (rows ?f) = length data"
    using cases_frame_shape(2) [of P "\<lparr>payload_data = Some data\<rparr>"]
    by (simp add: normalize_numeric_shape)
  have cols: "columns ?f = ?cols"
    using cases_frame_shape(1) [of P "\<lparr>payload_data = Some data\<rparr>"]
    by (simp add: normalize_numeric_shape)
  have cols0: "columns ?fetched = ?cols"
    using cases_frame_shape(1) [of P "\<lparr>payload_data = Some data\<rparr>"] by simp
  have len0: "length (rows ?fetched) = length data"
    using cases_frame_shape(2) [of P "\<lparr>payload_data = Some data\<rparr>"] by simp
  have cell: "get_cell (rows ?f ! i) c =
      (if c = ''date'' then to_datetime P (raw_cell (data ! i) c)
       else if c \<in> set numeric_cols then to_numeric P (raw_cell (data ! i) c)
       else raw_cell (data ! i) c)"
    if i: "i < length data" and c: "c \<in> set ?cols" for i c
  proof -
    have c0: "c \<in> set (columns ?fetched)"
      using c cols0 by simp
    have nd: "''date'' \<notin> set numeric_cols"
      by (simp add: numeric_cols_def)
    have "get_cell (rows ?f ! i) c =
        (if c \<in> set numeric_cols \<and> c \<in> set (columns ?fetched)
         then to_numeric P (get_cell (rows ?fetched ! i) c) else get_cell (rows ?fetched ! i) c)"
      using i len0 by (simp add: normalize_numeric_alt get_cell_numeric)
    then show ?thesis
      using cases_frame_cell [OF i c0] c0 nd by auto
  qed
  have bad_date: "get_cell (rows ?f ! i) ''date'' = NaN"
    if "i < length data \<and> map_of (data ! i) ''date'' = Some (JStr s) \<and> parse_datetime P s = None"
    for i s
  proof -
    have "''date'' \<in> set ?cols"
      using that key_is_column [of i data "''date''" "JStr s"] by simp
    then show ?thesis
      using cell [of i "''date''"] that by (simp add: raw_cell_def)
  qed
  have bad_num: "get_cell (rows ?f ! i) c = NaN"
    if "i < length data \<and> c \<in> set numeric_cols \<and> map_of (data ! i) c = Some (JStr s) \<and>
        parse_numeric P s = None"
    for i c s
  proof -
    have "c \<in> set ?cols"
      using that key_is_column [of i data c "JStr s"] by simp
    moreover have "c \<noteq> ''date''"
      using that by (auto simp: numeric_cols_def)
    ultimately show ?thesis
      using cell [of i c] that by (simp add: raw_cell_def)
  qed
  have e1: "normalize_numeric P (cases_frame P \<lparr>payload_data = Some []\<rparr>) =
      \<lparr>columns = [], rows = []\<rparr>"
    by (simp add: normalize_numeric_alt cases_frame_def DataFrame_def first_seen_def df_empty_def)
  have e2: "normalize_numeric P (cases_frame P \<lparr>payload_data = None\<rparr>) =
      \<lparr>columns = [], rows = []\<rparr>"
    by (simp add: normalize_numeric_alt cases_frame_def DataFrame_def first_seen_def df_empty_def)
  have ok: "snd (fetch_cases P w api_base level location start_date end_date timeout limit) =
        Inr (cases_frame P payload)"
    if "cases_response w (api_base @ ''/cases'')
          [(''level'', PStr level), (''location'', PStr location),
           (''start'', PStr (isoformat start_date)), (''end'', PStr (isoformat end_date)),
           (''limit'', PInt (case limit of None \<Rightarrow> 6000 | Some l \<Rightarrow> l))] = Inr payload"
    for payload
    using that by (simp add: fetch_cases_def Let_def)
  show ?thesis
  proof (intro conjI allI impI)
    show "length (rows ?f) = length data" by (rule len)
    show "columns ?f = ?cols" by (rule cols)
    show "get_cell (rows ?f ! i) c =
        (if c = ''date'' then to_datetime P (raw_cell (data ! i) c)
         else if c \<in> set numeric_cols then to_numeric P (raw_cell (data ! i) c)
         else raw_cell (data ! i) c)"
      if "i < length data \<and> c \<in> set ?cols" for i c
      using that cell [of i c] by simp
    show "get_cell (rows ?f ! i) ''date'' = NaN"
      if "i < length data \<and> map_of (data ! i) ''date'' = Some (JStr s) \<and>
          parse_datetime P s = None" for i s
      using that by (rule bad_date)
    show "get_cell (rows ?f ! i) c = NaN"
      if "i < length data \<and> c \<in> set numeric_cols \<and> map_of (data ! i) c = Some (JStr s) \<and>
          parse_numeric P s = None" for i c s
      using that by (rule bad_num)
    show "normalize_numeric P (cases_frame P \<lparr>payload_data = Some []\<rparr>) =
        \<lparr>columns = [], rows = []\<rparr>" by (rule e1)
    show "normalize_numeric P (cases_frame P \<lparr>payload_data = None\<rparr>) =
        \<lparr>columns = [], rows = []\<rparr>" by (rule e2)
    show "snd (fetch_cases P w api_base level location start_date end_date timeout limit) =
        Inr (cases_frame P payload)"
      if "cases_response w (api_base @ ''/cases'')
          [(''level'', PStr level), (''location'', PStr location),
           (''start'', PStr (isoformat start_date)), (''end'', PStr (isoformat end_date)),
           (''limit'', PInt (case limit of None \<Rightarrow> 6000 | Some l \<Rightarrow> l))] = Inr payload"
      for payload
      using that by (rule ok)
  qed
qed

theorem normalize_keeps_rows_witness:
  "length (rows (frame_of sample_data)) = 3
   \<and> get_cell (rows (frame_of sample_data) ! 2) ''date'' = NaN
   \<and> get_cell (rows (frame_of sample_data) ! 2) ''new_cases'' = NaN
   \<and> frame_of [] = \<lparr>columns = [], rows = []\<rparr>"
proof -
  have n: "length sample_data = 3"
    by (simp add: sample_data_def)
  have d: "(2::nat) < length sample_data \<and>
      map_of (sample_data ! 2) ''date'' = Some (JStr ''n/a'') \<and>
      parse_datetime sample_pandas ''n/a'' = None"
    by code_simp
  have c: "(2::nat) < length sample_data \<and> ''new_cases'' \<in> set numeric_cols \<and>
      map_of (sample_data ! 2) ''new_cases'' = Some (JStr ''unknown'') \<and>
      parse_numeric sample_pandas ''unknown'' = None"
    by code_simp
  note t = normalize_keeps_rows [where P = sample_pandas and data = sample_data]
  note t4 = t [THEN conjunct2, THEN conjunct2, THEN conjunct2, THEN conjunct1, rule_format]
  note t5 = t [THEN conjunct2, THEN conjunct2, THEN conjunct2, THEN conjunct2, THEN conjunct1,
      rule_format]
  note e = normalize_keeps_rows [where P = sample_pandas and data = "[]",
      THEN conjunct2, THEN conjunct2, THEN conjunct2, THEN conjunct2, THEN conjunct2,
      THEN conjunct1]
  have "length (rows (frame_of sample_data)) = 3"
    using t [THEN conjunct1] n by (simp add: frame_of_def)
  moreover have "get_cell (rows (frame_of sample_data) ! 2) ''date'' = NaN"
    unfolding frame_of_def by (rule t4 [OF d])
  moreover have "get_cell (rows (frame_of sample_data) ! 2) ''new_cases'' = NaN"
    unfolding frame_of_def by (rule t5 [OF c])
  moreover have "frame_of [] = \<lparr>columns = [], rows = []\<rparr>"
    unfolding frame_of_def by (rule e)
  ultimately show ?thesis
    by simp
qed

section \<open>The default location\<close>

lemma py_index_nth: "x \<in> set xs \<Longrightarrow> xs ! py_index xs x = x"
  unfolding py_index_def by (induction xs) auto

lemma py_index_less: "x \<in> set xs \<Longrightarrow> py_index xs x < length xs"
  unfolding py_index_def by (induction xs) auto

lemma selected_index_less:
  "index < length opts \<Longrightarrow> selected_index opts index pick < length opts"
  by (simp add: selected_index_def split: option.splits)

text \<open>
  Claim C7. For a level whose location list is not empty, the default location is
  \<^verbatim>\<open>Indonesia\<close> when the list has it and the first entry otherwise; it is a member of the
  list; the location widget, left untouched, returns it; and whatever the user picks, the
  widget returns a member of the list.
\<close>

theorem default_location:
  assumes "locs \<noteq> []"
  shows "default_loc locs = Inr (if ''Indonesia'' \<in> set locs then ''Indonesia'' else hd locs)
   \<and> (\<exists>dl. default_loc locs = Inr dl \<and> dl \<in> set locs \<and>
          selectbox locs (py_index locs dl) None = Some dl \<and>
          (\<exists>l. selectbox locs (py_index locs dl) pick = Some l \<and> l \<in> set locs))"
proof -
  let ?dl = "if ''Indonesia'' \<in> set locs then ''Indonesia'' else hd locs"
  have eq: "default_loc locs = Inr ?dl"
    using assms by (cases locs) (simp_all add: default_loc_def)
  have mem: "?dl \<in> set locs"
    using assms by simp
  have dflt: "selectbox locs (py_index locs ?dl) None = Some ?dl"
    using assms py_index_nth [OF mem] by (simp add: selectbox_def selected_index_def)
  have "selected_index locs (py_index locs ?dl) pick < length locs"
    using py_index_less [OF mem] by (rule selected_index_less)
  then have any: "\<exists>l. selectbox locs (py_index locs ?dl) pick = Some l \<and> l \<in> set locs"
    using assms by (simp add: selectbox_def)
  show ?thesis
    using eq mem dflt any by blast
qed

theorem default_location_witness:
  "default_loc [''Indonesia'', ''USA''] = Inr ''Indonesia''
   \<and> default_loc [''Jawa Barat'', ''Bali''] = Inr ''Jawa Barat''
   \<and> default_loc [''USA'', ''Indonesia''] = Inr ''Indonesia''"
proof -
  have a: "[''Indonesia'', ''USA''] \<noteq> []" and b: "[''Jawa Barat'', ''Bali''] \<noteq> []"
    and c: "[''USA'', ''Indonesia''] \<noteq> []"
    by simp_all
  show ?thesis
    using default_location [OF a, THEN conjunct1] default_location [OF b, THEN conjunct1]
      default_location [OF c, THEN conjunct1]
    by simp
qed

section \<open>Where a pass halts\<close>

lemma then_do_simps [simp]:
  "then_do (es, Inl h) f = (es, Inl h)"
  "then_do (es, Inr x) f = (es @ fst (f x), snd (f x))"
  "then_do (emit es) g = (es @ fst (g ()), snd (g ()))"
  "then_do (lift (Inl e)) f' = ([], Inl (Crashed e))"
  "then_do (lift (Inr x)) f = (fst (f x), snd (f x))"
  by (simp_all add: then_do_def emit_def lift_def split: prod.splits)

lemma notice_simps [simp]:
  "no_location_notice = ([StWarning ''Tidak ada location untuk level ini.''], Inl Stopped)"
  "no_data_notice =
     ([StWarning (''Tidak ada data untuk filter yang dipilih. Coba ganti '' @
                  ''level/location atau rentang tanggal.'')], Inl Stopped)"
  by (simp_all add: no_location_notice_def no_data_notice_def st_stop_def)

lemma load_metadata_events:
  assumes "load_metadata P w api_base timeout = (es, Inr m)"
  shows "es = [ApiGet (api_base @ ''/metadata'') [] timeout]"
  using assms
  by (auto simp: load_metadata_def fetch_metadata_def Let_def lift_def then_do_def
      split: sum.splits prod.splits)

lemma run_after_metadata:
  assumes "load_metadata P w (rstrip_slash (api_base_input w)) (timeout_input w) =
      (es, Inr (min_date, max_date, levels, locations_by_level))"
  shows "run P w =
     (case then_do (filters w min_date max_date levels locations_by_level)
             (\<lambda>(level, location, start_date, end_date).
                then_do (fetch_data P w (rstrip_slash (api_base_input w)) (timeout_input w)
                           level location start_date end_date)
                  (\<lambda>(summary, df).
                     render P w level location start_date end_date summary df))
      of (es', Inl h) \<Rightarrow>
           (ApiGet (rstrip_slash (api_base_input w) @ ''/metadata'') [] (timeout_input w) # es', h)
       | (es', Inr _) \<Rightarrow>
           (ApiGet (rstrip_slash (api_base_input w) @ ''/metadata'') [] (timeout_input w) # es',
            Finished))"
  using assms load_metadata_events [OF assms]
  by (simp add: run_def Let_def split: prod.splits sum.splits)

text \<open>
  Claim C10. When the metadata has loaded and the selected level has no locations (no
  level can be selected, or the level has no entry in \<^verbatim>\<open>locations_by_level\<close>, or its entry
  is the empty list), the pass is exactly: the metadata request that preceded the filters,
  the notice, and a halt by \<^verbatim>\<open>st.stop()\<close>. No exception ends it, no request for the
  summary or the cases is made, and nothing else is displayed.
\<close>

theorem empty_locations_halt:
  assumes "load_metadata P w (rstrip_slash (api_base_input w)) (timeout_input w) =
      (es, Inr (min_date, max_date, levels, locations_by_level))"
    and "\<forall>level ls. selectbox levels 0 (level_pick w) = Some level \<and>
           map_of locations_by_level level = Some ls \<longrightarrow> ls = []"
  shows "run P w =
     ([ApiGet (rstrip_slash (api_base_input w) @ ''/metadata'') [] (timeout_input w),
       StWarning ''Tidak ada location untuk level ini.''], Stopped)"
proof -
  have "filters w min_date max_date levels locations_by_level =
      ([StWarning ''Tidak ada location untuk level ini.''], Inl Stopped)"
    using assms(2) by (auto simp: filters_def Let_def split: option.splits)
  then show ?thesis
    using run_after_metadata [OF assms(1)] by simp
qed

theorem empty_locations_halt_witness:
  "run sample_pandas ((sample_world clean_data)\<lparr>level_pick := Some 1\<rparr>) =
     ([ApiGet ''http://api/metadata'' [] 10,
       StWarning ''Tidak ada location untuk level ini.''], Stopped)"
proof -
  let ?w = "(sample_world clean_data)\<lparr>level_pick := Some 1\<rparr>"
  have m: "load_metadata sample_pandas ?w (rstrip_slash (api_base_input ?w)) (timeout_input ?w) =
      ([ApiGet ''http://api/metadata'' [] 10],
       Inr ((2020, 1, 1), (2023, 1, 1), [''Country'', ''Province''],
            [(''Country'', [''Indonesia'', ''USA'']), (''Province'', [])]))"
    by code_simp
  have l: "\<forall>level ls. selectbox [''Country'', ''Province''] 0 (level_pick ?w) = Some level \<and>
      map_of [(''Country'', [''Indonesia'', ''USA'']), (''Province'', [])] level = Some ls \<longrightarrow>
      ls = []"
    by (simp add: sample_world_def selectbox_def selected_index_def)
  have a: "rstrip_slash (api_base_input ?w) = ''http://api''" and t: "timeout_input ?w = 10"
    by (simp_all add: sample_world_def rstrip_slash_def)
  show ?thesis
    using empty_locations_halt [OF m l] a t by simp
qed

end
